theory Spec2Isabelle
  imports Complex_Main "HOL-Library.Sublist"
begin

section \<open>Values, exceptions and the HTTP environment\<close>

text \<open>
  The module \<^verbatim>\<open>emi_calculator.py\<close> passes Python values through without computing on
  them. A value is one of the JSON-like shapes below; a \<^verbatim>\<open>dict\<close> is a list of
  key/value pairs in insertion order and is looked up with \<open>map_of\<close> (a Python dict has
  distinct keys). Floats are carried as real numbers: the module never does arithmetic
  on them.
\<close>

datatype json =
    JNull
  | JBool bool
  | JInt int
  | JFloat real
  | JStr string
  | JList "json list"
  | JObj "(string \<times> json) list"

text \<open>
  Exceptions. \<^verbatim>\<open>requests.exceptions.RequestException\<close> is the base class that the
  handler of \<^verbatim>\<open>_post\<close> names; the first argument tells which subclass was raised, the
  second is \<^verbatim>\<open>str(e)\<close>. \<open>KeyError\<close> carries the missing key. Everything else that is
  not a \<^verbatim>\<open>RequestException\<close> is \<open>OtherException\<close>.
\<close>

datatype request_exception =
    ConnectionError
  | Timeout
  | HTTPError
  | InvalidJSONError
  | OtherRequestException

datatype exn =
    RequestException request_exception string
  | KeyError string
  | OtherException string

text \<open>
  One call \<^verbatim>\<open>requests.post(url, json=payload, timeout=10)\<close> is a \<open>request\<close>. What the
  library, the network and the backend do with it is the environment: a function from
  the request to either the exception raised by \<^verbatim>\<open>requests.post\<close> or the response
  object. A response carries its status code, reason phrase and URL, and the outcome of
  \<^verbatim>\<open>response.json()\<close>: the parsed body, or the exception raised for a body that is not
  JSON.
\<close>

record request =
  url :: string
  body :: json
  timeout :: nat

record response =
  status_code :: nat
  reason :: string
  final_url :: string
  json_result :: "exn + json"

type_synonym requests_post = "request \<Rightarrow> exn + response"

text \<open>
  Every operation returns the list of calls made to \<^verbatim>\<open>requests.post\<close> together with
  its result: \<open>Inl e\<close> when the exception \<open>e\<close> leaves the function, \<open>Inr v\<close> when it
  returns \<open>v\<close>.
\<close>

type_synonym outcome = "request list \<times> (exn + json)"

abbreviation sent :: "outcome \<Rightarrow> request list" where
  "sent \<equiv> fst"

abbreviation result :: "outcome \<Rightarrow> exn + json" where
  "result \<equiv> snd"

section \<open>Start-up configuration\<close>

text \<open>
  \<^verbatim>\<open>load_dotenv()\<close> adds the entries of a \<^verbatim>\<open>.env\<close> file to the process environment
  without overriding a variable that is already set; \<^verbatim>\<open>os.getenv(key, default)\<close>
  returns the default only when the key is absent.
\<close>

type_synonym environ = "string \<rightharpoonup> string"

definition load_dotenv :: "environ \<Rightarrow> environ \<Rightarrow> environ" where
  "load_dotenv dotenv env = dotenv ++ env"

definition getenv :: "environ \<Rightarrow> string \<Rightarrow> string \<Rightarrow> string" where
  "getenv env key dflt = (case env key of None \<Rightarrow> dflt | Some v \<Rightarrow> v)"

definition BASE_URL :: "environ \<Rightarrow> environ \<Rightarrow> string" where
  "BASE_URL dotenv env =
     getenv (load_dotenv dotenv env) ''EMI_API_BASE_URL'' ''http://localhost:8000/api''"

section \<open>The HTTP relay\<close>

text \<open>Decimal rendering of a status code, as an f-string does.\<close>

fun str_nat :: "nat \<Rightarrow> string" where
  "str_nat n =
     (if n < 10 then [''0123456789'' ! n]
      else str_nat (n div 10) @ [''0123456789'' ! (n mod 10)])"

declare str_nat.simps [simp del]

text \<open>
  \<^verbatim>\<open>Response.raise_for_status()\<close> of the \<^verbatim>\<open>requests\<close> library: it builds a message for
  a status code in 400..499 (client error) or 500..599 (server error) and raises
  \<^verbatim>\<open>HTTPError\<close> exactly when a message was built. Any other status code passes.
\<close>

definition raise_for_status :: "response \<Rightarrow> exn option" where
  "raise_for_status r =
     (let http_error_msg =
        (if 400 \<le> status_code r \<and> status_code r < 500
         then str_nat (status_code r) @ '' Client Error: '' @ reason r
                @ '' for url: '' @ final_url r
         else if 500 \<le> status_code r \<and> status_code r < 600
         then str_nat (status_code r) @ '' Server Error: '' @ reason r
                @ '' for url: '' @ final_url r
         else '''')
      in if http_error_msg \<noteq> '''' then Some (RequestException HTTPError http_error_msg)
         else None)"

text \<open>The body of the \<^verbatim>\<open>try\<close> block of \<^verbatim>\<open>_post\<close>.\<close>

definition try_body :: "requests_post \<Rightarrow> request \<Rightarrow> exn + json" where
  "try_body requests_post req =
     (case requests_post req of
        Inl e \<Rightarrow> Inl e
      | Inr response \<Rightarrow>
          (case raise_for_status response of
             Some e \<Rightarrow> Inl e
           | None \<Rightarrow> json_result response))"

text \<open>
  \<^verbatim>\<open>_post(path, payload)\<close>; the module-level \<^verbatim>\<open>BASE_URL\<close> and the environment are
  explicit arguments. Only a \<^verbatim>\<open>RequestException\<close> is caught.
\<close>

definition post :: "string \<Rightarrow> requests_post \<Rightarrow> string \<Rightarrow> json \<Rightarrow> outcome" where
  "post base requests_post path payload =
     (let req = \<lparr>url = base @ path, body = payload, timeout = 10\<rparr>
      in ([req],
          (case try_body requests_post req of
             Inr v \<Rightarrow> Inr v
           | Inl (RequestException k msg) \<Rightarrow>
               Inr (JObj [(''error'', JStr ''backend_error''),
                          (''details'', JStr msg),
                          (''payload'', payload)])
           | Inl e \<Rightarrow> Inl e)))"

section \<open>The tool handlers\<close>

text \<open>
  A keyword parameter with a default value is an optional argument: \<open>None\<close> when the
  caller omits it. All four handlers declare \<^verbatim>\<open>calculation_method: str = "reducing"\<close>.
\<close>

definition or_default :: "'a \<Rightarrow> 'a option \<Rightarrow> 'a" where
  "or_default d a = (case a of None \<Rightarrow> d | Some v \<Rightarrow> v)"

definition calculate_emi ::
  "string \<Rightarrow> requests_post \<Rightarrow> real \<Rightarrow> real \<Rightarrow> int \<Rightarrow> string option \<Rightarrow> outcome" where
  "calculate_emi base requests_post principal' interestRate tenure calculation_method_arg =
     (let calculation_method = or_default ''reducing'' calculation_method_arg;
          payload = JObj [(''principal'', JFloat principal'),
                          (''annual_rate'', JFloat interestRate),
                          (''tenure_months'', JInt tenure),
                          (''calculation_method'', JStr calculation_method)]
      in post base requests_post ''/calculate-emi'' payload)"

definition calculate_schedule ::
  "string \<Rightarrow> requests_post \<Rightarrow> real \<Rightarrow> real \<Rightarrow> int \<Rightarrow> string option \<Rightarrow> outcome" where
  "calculate_schedule base requests_post principal' interestRate tenure calculation_method_arg =
     (let calculation_method = or_default ''reducing'' calculation_method_arg;
          payload = JObj [(''principal'', JFloat principal'),
                          (''annual_rate'', JFloat interestRate),
                          (''tenure_months'', JInt tenure),
                          (''calculation_method'', JStr calculation_method)]
      in post base requests_post ''/amortization-schedule'' payload)"

text \<open>
  \<^verbatim>\<open>scenario[key]\<close> raises \<^verbatim>\<open>KeyError(key)\<close> for an absent key;
  \<^verbatim>\<open>scenario.get(key, default)\<close> returns the default (\<^verbatim>\<open>None\<close> when none is given).
\<close>

type_synonym scenario = "(string \<times> json) list"

definition getitem :: "scenario \<Rightarrow> string \<Rightarrow> exn + json" where
  "getitem d key = (case map_of d key of None \<Rightarrow> Inl (KeyError key) | Some v \<Rightarrow> Inr v)"

definition dict_get :: "scenario \<Rightarrow> string \<Rightarrow> json \<Rightarrow> json" where
  "dict_get d key dflt = (case map_of d key of None \<Rightarrow> dflt | Some v \<Rightarrow> v)"

text \<open>
  The dict display inside the loop of \<^verbatim>\<open>compare_loans\<close>: its five values are
  evaluated top to bottom, so the first absent key among \<^verbatim>\<open>principal\<close>,
  \<^verbatim>\<open>interestRate\<close>, \<^verbatim>\<open>tenure\<close> is the one reported.
\<close>

definition format_scenario :: "string \<Rightarrow> scenario \<Rightarrow> exn + json" where
  "format_scenario calculation_method scenario =
     (let name = dict_get scenario ''name'' JNull in
      case getitem scenario ''principal'' of
        Inl e \<Rightarrow> Inl e
      | Inr principal' \<Rightarrow>
     (case getitem scenario ''interestRate'' of
        Inl e \<Rightarrow> Inl e
      | Inr annual_rate \<Rightarrow>
     (case getitem scenario ''tenure'' of
        Inl e \<Rightarrow> Inl e
      | Inr tenure_months \<Rightarrow>
          Inr (JObj [(''name'', name),
                     (''principal'', principal'),
                     (''annual_rate'', annual_rate),
                     (''tenure_months'', tenure_months),
                     (''calculation_method'',
                        dict_get scenario ''calculation_method''
                          (JStr calculation_method))]))))"

text \<open>
  The \<^verbatim>\<open>for\<close> loop: the third argument is \<^verbatim>\<open>formatted_scenarios\<close>, appended to once
  per scenario; an exception leaves the loop at once.
\<close>

fun format_loop :: "string \<Rightarrow> scenario list \<Rightarrow> json list \<Rightarrow> exn + json list" where
  "format_loop calculation_method [] formatted_scenarios = Inr formatted_scenarios"
| "format_loop calculation_method (scenario # rest) formatted_scenarios =
     (case format_scenario calculation_method scenario of
        Inl e \<Rightarrow> Inl e
      | Inr d \<Rightarrow> format_loop calculation_method rest (formatted_scenarios @ [d]))"

definition compare_loans ::
  "string \<Rightarrow> requests_post \<Rightarrow> scenario list \<Rightarrow> string option \<Rightarrow> outcome" where
  "compare_loans base requests_post scenarios calculation_method_arg =
     (let calculation_method = or_default ''reducing'' calculation_method_arg in
      case format_loop calculation_method scenarios [] of
        Inl e \<Rightarrow> ([], Inl e)
      | Inr formatted_scenarios \<Rightarrow>
          post base requests_post ''/compare-loans''
            (JObj [(''scenarios'', JList formatted_scenarios)]))"

definition calculate_with_prepayment ::
  "string \<Rightarrow> requests_post \<Rightarrow> real \<Rightarrow> real \<Rightarrow> int \<Rightarrow> real \<Rightarrow> string \<Rightarrow> int
     \<Rightarrow> string option \<Rightarrow> outcome" where
  "calculate_with_prepayment base requests_post principal' interestRate tenure
       prepayment_amount prepayment_frequency prepayment_start_month calculation_method_arg =
     (let calculation_method = or_default ''reducing'' calculation_method_arg;
          payload = JObj [(''principal'', JFloat principal'),
                          (''annual_rate'', JFloat interestRate),
                          (''tenure_months'', JInt tenure),
                          (''prepayment_amount'', JFloat prepayment_amount),
                          (''prepayment_frequency'', JStr prepayment_frequency),
                          (''prepayment_start_month'', JInt prepayment_start_month),
                          (''calculation_method'', JStr calculation_method)]
      in post base requests_post ''/calculate-with-prepayment'' payload)"

text \<open>
  The registry filled by the \<^verbatim>\<open>@mcp.tool()\<close> decorators: a tool call names one of the
  four handlers and gives its arguments; the server runs that handler.
\<close>

datatype tool_call =
    Calculate_emi real real int "string option"
  | Calculate_schedule real real int "string option"
  | Compare_loans "scenario list" "string option"
  | Calculate_with_prepayment real real int real string int "string option"

fun call_tool :: "string \<Rightarrow> requests_post \<Rightarrow> tool_call \<Rightarrow> outcome" where
  "call_tool base requests_post (Calculate_emi p r t m) =
     calculate_emi base requests_post p r t m"
| "call_tool base requests_post (Calculate_schedule p r t m) =
     calculate_schedule base requests_post p r t m"
| "call_tool base requests_post (Compare_loans scenarios m) =
     compare_loans base requests_post scenarios m"
| "call_tool base requests_post (Calculate_with_prepayment p r t a f s m) =
     calculate_with_prepayment base requests_post p r t a f s m"

section \<open>Concrete environments\<close>

text \<open>
  A backend that answers every request with the given status, reason phrase and JSON
  body; an environment in which \<^verbatim>\<open>requests.post\<close> raises the given exception; and
  process environments with \<^verbatim>\<open>EMI_API_BASE_URL\<close> unset or set.

  The HTTP client reads no body from an answer with status 1xx, 204 or 304, whatever the
  backend wrote: \<^verbatim>\<open>response.json()\<close> then finds the empty string and raises
  \<^verbatim>\<open>JSONDecodeError\<close>, a \<^verbatim>\<open>RequestException\<close>.
\<close>

definition bodiless :: "nat \<Rightarrow> bool" where
  "bodiless status = (100 \<le> status \<and> status < 200 \<or> status = 204 \<or> status = 304)"

definition replying :: "nat \<Rightarrow> string \<Rightarrow> json \<Rightarrow> requests_post" where
  "replying status phrase b =
     (\<lambda>req. Inr \<lparr>status_code = status, reason = phrase, final_url = url req,
                 json_result =
                   (if bodiless status
                    then Inl (RequestException InvalidJSONError
                                ''Expecting value: line 1 column 1 (char 0)'')
                    else Inr b)\<rparr>)"

definition raising :: "exn \<Rightarrow> requests_post" where
  "raising e = (\<lambda>req. Inl e)"


definition unset_env :: environ where
  "unset_env = Map.empty"

definition env_with_base_url :: "string \<Rightarrow> environ" where
  "env_with_base_url v = Map.empty(''EMI_API_BASE_URL'' \<mapsto> v)"

definition example_scenario :: scenario where
  "example_scenario =
     [(''principal'', JInt 100000), (''interestRate'', JFloat 9.5), (''tenure'', JInt 12)]"

definition named_scenario :: scenario where
  "named_scenario =
     [(''name'', JStr ''B''), (''principal'', JInt 250000), (''interestRate'', JFloat 8),
      (''tenure'', JInt 24), (''calculation_method'', JStr ''flat''),
      (''note'', JStr ''second offer'')]"

definition example_base :: string where
  "example_base = ''http://localhost:8000/api''"

definition example_call :: tool_call where
  "example_call = Calculate_emi 100000 9.5 12 None"

definition example_request :: request where
  "example_request =
     \<lparr>url = ''http://localhost:8000/api/calculate-emi'',
      body = JObj [(''principal'', JFloat 100000), (''annual_rate'', JFloat 9.5),
                   (''tenure_months'', JInt 12),
                   (''calculation_method'', JStr ''reducing'')],
      timeout = 10\<rparr>"

section \<open>Properties of the relay\<close>

lemma post_sent:
  "sent (post base rp path payload) = [\<lparr>url = base @ path, body = payload, timeout = 10\<rparr>]"
  by (simp add: post_def Let_def)

lemma raise_for_status_None:
  "raise_for_status r = None \<longleftrightarrow> \<not> (400 \<le> status_code r \<and> status_code r < 600)"
  by (auto simp add: raise_for_status_def Let_def)




lemma post_success:
  assumes "rp \<lparr>url = base @ path, body = payload, timeout = 10\<rparr> = Inr resp"
    and "200 \<le> status_code resp" and "status_code resp < 300"
    and "json_result resp = Inr b"
  shows "result (post base rp path payload) = Inr b"
proof -
  from assms(2,3) have "raise_for_status resp = None" by (simp add: raise_for_status_None)
  with assms(1,4) show ?thesis by (simp add: post_def Let_def try_body_def)
qed

section \<open>Properties of the handlers\<close>

lemma format_scenario_Inl:
  assumes "format_scenario dm s = Inl e"
  shows "\<exists>k\<in>{''principal'', ''interestRate'', ''tenure''}. e = KeyError k \<and> map_of s k = None"
  using assms
  by (auto simp add: format_scenario_def getitem_def Let_def split: option.splits sum.splits)

lemma format_scenario_Inr:
  assumes "\<forall>k\<in>{''principal'', ''interestRate'', ''tenure''}. map_of s k = Some (f k)"
  shows "format_scenario dm s =
           Inr (JObj [(''name'', dict_get s ''name'' JNull),
                      (''principal'', f ''principal''),
                      (''annual_rate'', f ''interestRate''),
                      (''tenure_months'', f ''tenure''),
                      (''calculation_method'', dict_get s ''calculation_method'' (JStr dm))])"
  using assms by (simp add: format_scenario_def getitem_def Let_def)

lemma format_scenario_complete:
  assumes "format_scenario dm s = Inr d"
  shows "\<forall>k\<in>{''principal'', ''interestRate'', ''tenure''}. map_of s k \<noteq> None"
  using assms
  by (auto simp add: format_scenario_def getitem_def Let_def split: option.splits sum.splits)

lemma format_loop_missing:
  assumes "\<exists>s\<in>set ss. \<exists>k\<in>{''principal'', ''interestRate'', ''tenure''}. map_of s k = None"
  shows "\<exists>k\<in>{''principal'', ''interestRate'', ''tenure''}. format_loop dm ss acc = Inl (KeyError k)"
  using assms
proof (induction ss arbitrary: acc)
  case Nil
  then show ?case by simp
next
  case (Cons s ss)
  show ?case
  proof (cases "format_scenario dm s")
    case (Inl e)
    from format_scenario_Inl [OF Inl] obtain k where
      "k \<in> {''principal'', ''interestRate'', ''tenure''}" "e = KeyError k" by blast
    with Inl show ?thesis by auto
  next
    case (Inr d)
    from format_scenario_complete [OF Inr] Cons.prems
    have "\<exists>s\<in>set ss. \<exists>k\<in>{''principal'', ''interestRate'', ''tenure''}. map_of s k = None"
      by auto
    from Cons.IH [OF this, of "acc @ [d]"] Inr show ?thesis by simp
  qed
qed

lemma format_loop_complete:
  assumes "\<forall>s\<in>set ss. \<forall>k\<in>{''principal'', ''interestRate'', ''tenure''}. map_of s k \<noteq> None"
  shows "\<exists>fs. format_loop dm ss acc = Inr (acc @ fs)
           \<and> list_all2 (\<lambda>s d. format_scenario dm s = Inr d) ss fs"
  using assms
proof (induction ss arbitrary: acc)
  case Nil
  then show ?case by simp
next
  case (Cons s ss)
  from Cons.prems have
    "\<forall>k\<in>{''principal'', ''interestRate'', ''tenure''}. map_of s k = Some (the (map_of s k))"
    by auto
  from format_scenario_Inr [OF this] obtain d where d: "format_scenario dm s = Inr d"
    by blast
  from Cons.prems have "\<forall>s\<in>set ss. \<forall>k\<in>{''principal'', ''interestRate'', ''tenure''}. map_of s k \<noteq> None"
    by simp
  from Cons.IH [OF this, of "acc @ [d]"] obtain fs where
    fs: "format_loop dm ss (acc @ [d]) = Inr ((acc @ [d]) @ fs)"
        "list_all2 (\<lambda>s d. format_scenario dm s = Inr d) ss fs" by blast
  with d have "format_loop dm (s # ss) acc = Inr (acc @ (d # fs))
     \<and> list_all2 (\<lambda>s d. format_scenario dm s = Inr d) (s # ss) (d # fs)" by simp
  then show ?case by blast
qed

lemma format_scenario_shape:
  assumes "format_scenario dm s = Inr d"
  shows "d = JObj [(''name'', dict_get s ''name'' JNull),
                   (''principal'', the (map_of s ''principal'')),
                   (''annual_rate'', the (map_of s ''interestRate'')),
                   (''tenure_months'', the (map_of s ''tenure'')),
                   (''calculation_method'', dict_get s ''calculation_method'' (JStr dm))]"
  using assms
  by (auto simp add: format_scenario_def getitem_def Let_def split: option.splits sum.splits)

lemma call_tool_sent:
  assumes "req \<in> set (sent (call_tool base rp c))"
  shows "\<exists>path. call_tool base rp c = post base rp path (body req)
           \<and> req = \<lparr>url = base @ path, body = body req, timeout = 10\<rparr>"
proof (cases c)
  case (Calculate_emi p r t m)
  with assms show ?thesis
    by (auto simp add: calculate_emi_def Let_def post_sent)
next
  case (Calculate_schedule p r t m)
  with assms show ?thesis
    by (auto simp add: calculate_schedule_def Let_def post_sent)
next
  case (Compare_loans scenarios m)
  with assms show ?thesis
    by (auto simp add: compare_loans_def Let_def post_sent split: sum.splits)
next
  case (Calculate_with_prepayment p r t a f s m)
  with assms show ?thesis
    by (auto simp add: calculate_with_prepayment_def Let_def post_sent)
qed

section \<open>The claims\<close>




text \<open>
  Claim C2. If the backend answers the POST of \<^verbatim>\<open>_post\<close> with a 2xx status and a
  body that parses to \<open>b\<close>, then \<^verbatim>\<open>_post\<close> returns \<open>b\<close> itself; and so does every
  tool whose request is answered that way.
\<close>

theorem success_body_unchanged:
  "(rp \<lparr>url = base @ path, body = payload, timeout = 10\<rparr> = Inr resp
      \<and> 200 \<le> status_code resp \<and> status_code resp < 300 \<and> json_result resp = Inr b
      \<longrightarrow> result (post base rp path payload) = Inr b)
   \<and> (\<forall>req\<in>set (sent (call_tool base rp c)).
        rp req = Inr resp
        \<and> 200 \<le> status_code resp \<and> status_code resp < 300 \<and> json_result resp = Inr b
        \<longrightarrow> result (call_tool base rp c) = Inr b)"
proof (intro conjI ballI impI)
  assume "rp \<lparr>url = base @ path, body = payload, timeout = 10\<rparr> = Inr resp
      \<and> 200 \<le> status_code resp \<and> status_code resp < 300 \<and> json_result resp = Inr b"
  then show "result (post base rp path payload) = Inr b"
    using post_success [of rp base path payload resp b] by simp
next
  fix req
  assume m: "req \<in> set (sent (call_tool base rp c))"
    and h: "rp req = Inr resp
      \<and> 200 \<le> status_code resp \<and> status_code resp < 300 \<and> json_result resp = Inr b"
  from call_tool_sent [OF m] obtain p where
    c: "call_tool base rp c = post base rp p (body req)"
    and r: "req = \<lparr>url = base @ p, body = body req, timeout = 10\<rparr>" by blast
  from h r have "result (post base rp p (body req)) = Inr b"
    using post_success [of rp base p "body req" resp b] by simp
  with c show "result (call_tool base rp c) = Inr b" by simp
qed

text \<open>
  The theorem for \<^verbatim>\<open>calculate_emi\<close> and an HTTP 200 answer with body
  \<^verbatim>\<open>{"emi": 8792.5}\<close>.
\<close>

theorem success_body_unchanged_witness:
  "example_request \<in> set (sent (call_tool example_base
       (replying 200 ''OK'' (JObj [(''emi'', JFloat 8792.5)])) example_call))
   \<and> replying 200 ''OK'' (JObj [(''emi'', JFloat 8792.5)]) example_request
       = Inr \<lparr>status_code = 200, reason = ''OK'', final_url = url example_request,
              json_result = Inr (JObj [(''emi'', JFloat 8792.5)])\<rparr>
   \<and> result (call_tool example_base
       (replying 200 ''OK'' (JObj [(''emi'', JFloat 8792.5)])) example_call)
       = Inr (JObj [(''emi'', JFloat 8792.5)])"
proof -
  have m: "example_request \<in> set (sent (call_tool example_base
       (replying 200 ''OK'' (JObj [(''emi'', JFloat 8792.5)])) example_call))"
    by (simp add: example_request_def example_base_def example_call_def
        calculate_emi_def or_default_def post_sent)
  have r: "replying 200 ''OK'' (JObj [(''emi'', JFloat 8792.5)]) example_request
       = Inr \<lparr>status_code = 200, reason = ''OK'', final_url = url example_request,
              json_result = Inr (JObj [(''emi'', JFloat 8792.5)])\<rparr>"
    by (simp add: replying_def bodiless_def)
  from success_body_unchanged [of "replying 200 ''OK'' (JObj [(''emi'', JFloat 8792.5)])"
      example_base "''/calculate-emi''" "body example_request"
      "\<lparr>status_code = 200, reason = ''OK'', final_url = url example_request,
              json_result = Inr (JObj [(''emi'', JFloat 8792.5)])\<rparr>"
      "JObj [(''emi'', JFloat 8792.5)]" example_call] m r
  show ?thesis by auto
qed

text \<open>
  Claim C3. For all arguments, \<^verbatim>\<open>calculate_emi\<close> posts to the route
  \<^verbatim>\<open>/calculate-emi\<close> the payload with exactly the keys \<^verbatim>\<open>principal\<close>,
  \<^verbatim>\<open>annual_rate\<close> (from \<^verbatim>\<open>interestRate\<close>), \<^verbatim>\<open>tenure_months\<close> (from \<^verbatim>\<open>tenure\<close>) and
  \<^verbatim>\<open>calculation_method\<close>, the last being \<^verbatim>\<open>reducing\<close> when the caller gives none.
\<close>

theorem calculate_emi_payload:
  "calculate_emi base rp p r t m =
     post base rp ''/calculate-emi''
       (JObj [(''principal'', JFloat p), (''annual_rate'', JFloat r),
              (''tenure_months'', JInt t),
              (''calculation_method'', JStr (case m of None \<Rightarrow> ''reducing'' | Some cm \<Rightarrow> cm))])
   \<and> sent (calculate_emi base rp p r t m) =
       [\<lparr>url = base @ ''/calculate-emi'',
         body = JObj [(''principal'', JFloat p), (''annual_rate'', JFloat r),
                      (''tenure_months'', JInt t),
                      (''calculation_method'',
                         JStr (case m of None \<Rightarrow> ''reducing'' | Some cm \<Rightarrow> cm))],
         timeout = 10\<rparr>]"
  by (simp add: calculate_emi_def or_default_def post_sent)

text \<open>
  The theorem with the method omitted and with the method \<^verbatim>\<open>flat\<close>.
\<close>

theorem calculate_emi_payload_witness:
  "sent (calculate_emi example_base (replying 200 ''OK'' JNull) 100000 9.5 12 None)
     = [example_request]
   \<and> sent (calculate_emi example_base (replying 200 ''OK'' JNull) 100000 9.5 12
        (Some ''flat''))
     = [\<lparr>url = ''http://localhost:8000/api/calculate-emi'',
         body = JObj [(''principal'', JFloat 100000), (''annual_rate'', JFloat 9.5),
                      (''tenure_months'', JInt 12), (''calculation_method'', JStr ''flat'')],
         timeout = 10\<rparr>]"
  using calculate_emi_payload [of example_base "replying 200 ''OK'' JNull" 100000 "9.5" 12 None]
    calculate_emi_payload [of example_base "replying 200 ''OK'' JNull" 100000 "9.5" 12
      "Some ''flat''"]
  by (simp add: example_base_def example_request_def post_sent)

text \<open>
  Claim C4. \<^verbatim>\<open>compare_loans\<close> with the single scenario
  \<^verbatim>\<open>{"principal": 100000, "interestRate": 9.5, "tenure": 12}\<close> and no method posts the
  payload whose only scenario has \<^verbatim>\<open>name\<close> null and \<^verbatim>\<open>calculation_method\<close>
  \<^verbatim>\<open>reducing\<close>.
\<close>

theorem compare_loans_example_payload:
  "sent (compare_loans base rp
       [[(''principal'', JInt 100000), (''interestRate'', JFloat 9.5),
         (''tenure'', JInt 12)]] None) =
     [\<lparr>url = base @ ''/compare-loans'',
       body = JObj [(''scenarios'',
                JList [JObj [(''name'', JNull), (''principal'', JInt 100000),
                             (''annual_rate'', JFloat 9.5), (''tenure_months'', JInt 12),
                             (''calculation_method'', JStr ''reducing'')]])],
       timeout = 10\<rparr>]"
  by (simp add: compare_loans_def or_default_def format_scenario_def getitem_def
      dict_get_def post_sent)

text \<open>
  The theorem with the default base URL and a backend that refuses the connection.
\<close>

theorem compare_loans_example_payload_witness:
  "sent (compare_loans example_base (raising (RequestException ConnectionError ''refused''))
       [[(''principal'', JInt 100000), (''interestRate'', JFloat 9.5),
         (''tenure'', JInt 12)]] None) =
     [\<lparr>url = ''http://localhost:8000/api/compare-loans'',
       body = JObj [(''scenarios'',
                JList [JObj [(''name'', JNull), (''principal'', JInt 100000),
                             (''annual_rate'', JFloat 9.5), (''tenure_months'', JInt 12),
                             (''calculation_method'', JStr ''reducing'')]])],
       timeout = 10\<rparr>]"
  using compare_loans_example_payload [of example_base
      "raising (RequestException ConnectionError ''refused'')"]
  by (simp add: example_base_def)

text \<open>
  Claim C5. If some scenario lacks one of the keys \<^verbatim>\<open>principal\<close>,
  \<^verbatim>\<open>interestRate\<close>, \<^verbatim>\<open>tenure\<close>, then \<^verbatim>\<open>compare_loans\<close> raises a \<^verbatim>\<open>KeyError\<close> for one
  of these keys, and no call to \<^verbatim>\<open>requests.post\<close> has been made: the error is not turned
  into a \<^verbatim>\<open>backend_error\<close> result.
\<close>

theorem compare_loans_missing_key:
  assumes "\<exists>s\<in>set scenarios. \<exists>k\<in>{''principal'', ''interestRate'', ''tenure''}. map_of s k = None"
  shows "\<exists>k\<in>{''principal'', ''interestRate'', ''tenure''}.
           compare_loans base rp scenarios m = ([], Inl (KeyError k))"
proof -
  from format_loop_missing [OF assms, of "or_default ''reducing'' m" "[]"] obtain k where
    "k \<in> {''principal'', ''interestRate'', ''tenure''}"
    "format_loop (or_default ''reducing'' m) scenarios [] = Inl (KeyError k)" by blast
  then show ?thesis by (auto simp add: compare_loans_def)
qed

text \<open>
  The theorem for a complete scenario followed by one without \<^verbatim>\<open>principal\<close>.
\<close>

theorem compare_loans_missing_key_witness:
  "(\<exists>s\<in>set [example_scenario, [(''interestRate'', JFloat 9.5), (''tenure'', JInt 12)]].
      \<exists>k\<in>{''principal'', ''interestRate'', ''tenure''}. map_of s k = None)
   \<and> compare_loans example_base (replying 200 ''OK'' JNull)
        [example_scenario, [(''interestRate'', JFloat 9.5), (''tenure'', JInt 12)]] None
      = ([], Inl (KeyError ''principal''))"
proof -
  have h: "\<exists>s\<in>set [example_scenario, [(''interestRate'', JFloat 9.5), (''tenure'', JInt 12)]].
      \<exists>k\<in>{''principal'', ''interestRate'', ''tenure''}. map_of s k = None"
    by simp
  have "compare_loans example_base (replying 200 ''OK'' JNull)
        [example_scenario, [(''interestRate'', JFloat 9.5), (''tenure'', JInt 12)]] None
      \<noteq> ([], Inl (KeyError ''interestRate''))"
    "compare_loans example_base (replying 200 ''OK'' JNull)
        [example_scenario, [(''interestRate'', JFloat 9.5), (''tenure'', JInt 12)]] None
      \<noteq> ([], Inl (KeyError ''tenure''))"
    by (simp_all add: compare_loans_def or_default_def format_scenario_def getitem_def
        dict_get_def example_scenario_def)
  with compare_loans_missing_key [OF h, of example_base "replying 200 ''OK'' JNull" None] h
  show ?thesis by auto
qed

text \<open>
  Claim C6, as the code has it. The base URL is the value of \<^verbatim>\<open>EMI_API_BASE_URL\<close>
  in the process environment, whatever that value is; when the process environment
  does not set it, the value given by the \<^verbatim>\<open>.env\<close> file; and
  \<^verbatim>\<open>http://localhost:8000/api\<close> when neither sets it.
\<close>

theorem base_url_from_environment:
  "(env ''EMI_API_BASE_URL'' = Some v \<longrightarrow> BASE_URL dotenv env = v)
   \<and> (env ''EMI_API_BASE_URL'' = None \<and> dotenv ''EMI_API_BASE_URL'' = Some v
        \<longrightarrow> BASE_URL dotenv env = v)
   \<and> (env ''EMI_API_BASE_URL'' = None \<and> dotenv ''EMI_API_BASE_URL'' = None
        \<longrightarrow> BASE_URL dotenv env = ''http://localhost:8000/api'')"
  by (simp add: BASE_URL_def getenv_def load_dotenv_def map_add_def)

text \<open>
  The theorem with the variable set to the empty string, unset everywhere, and given
  only by the \<^verbatim>\<open>.env\<close> file.
\<close>

theorem base_url_from_environment_witness:
  "env_with_base_url '''' ''EMI_API_BASE_URL'' = Some ''''
   \<and> BASE_URL unset_env (env_with_base_url '''') = ''''
   \<and> unset_env ''EMI_API_BASE_URL'' = None
   \<and> BASE_URL unset_env unset_env = ''http://localhost:8000/api''
   \<and> BASE_URL (env_with_base_url ''http://emi.example/api'') unset_env
        = ''http://emi.example/api''"
proof -
  have s: "env_with_base_url '''' ''EMI_API_BASE_URL'' = Some ''''"
      "env_with_base_url ''http://emi.example/api'' ''EMI_API_BASE_URL''
         = Some ''http://emi.example/api''"
    by (simp_all add: env_with_base_url_def)
  have u: "unset_env ''EMI_API_BASE_URL'' = None"
    by (simp add: unset_env_def)
  from base_url_from_environment [of "env_with_base_url ''''" "''''" unset_env]
    base_url_from_environment [of unset_env "''http://emi.example/api''" unset_env]
    base_url_from_environment [of unset_env "''http://emi.example/api''"
      "env_with_base_url ''http://emi.example/api''"] s u
  show ?thesis by simp
qed

text \<open>
  Claim C6 says that a variable set to the empty string gives the default URL. It
  gives the empty string.
\<close>

theorem empty_base_url_counterexample:
  "env_with_base_url '''' ''EMI_API_BASE_URL'' = Some ''''
   \<and> BASE_URL unset_env (env_with_base_url '''') \<noteq> ''http://localhost:8000/api''"
  by (simp add: BASE_URL_def getenv_def load_dotenv_def map_add_def
      env_with_base_url_def unset_env_def)

text \<open>
  Claim C7. \<^verbatim>\<open>_post\<close> makes one call to \<^verbatim>\<open>requests.post\<close>: to the base URL followed by
  the path, with the payload as JSON body and a timeout of 10. So every request of every
  tool has the base URL as a prefix of its URL and timeout 10; and when
  \<^verbatim>\<open>EMI_API_BASE_URL\<close> is set to \<open>v\<close> before start-up, \<open>v\<close> is that prefix.
\<close>

theorem post_request_shape:
  "sent (post base rp path payload) = [\<lparr>url = base @ path, body = payload, timeout = 10\<rparr>]
   \<and> (\<forall>req\<in>set (sent (call_tool base rp c)). prefix base (url req) \<and> timeout req = 10)
   \<and> (\<forall>req\<in>set (sent (call_tool
          (BASE_URL dotenv (env(''EMI_API_BASE_URL'' \<mapsto> v))) rp c)). prefix v (url req))"
proof (intro conjI ballI)
  show "sent (post base rp path payload) = [\<lparr>url = base @ path, body = payload, timeout = 10\<rparr>]"
    by (rule post_sent)
next
  fix req assume "req \<in> set (sent (call_tool base rp c))"
  from call_tool_sent [OF this] obtain p where
    "req = \<lparr>url = base @ p, body = body req, timeout = 10\<rparr>" by blast
  then have "url req = base @ p" "timeout req = 10"
    by (metis request.select_convs(1), metis request.select_convs(3))
  then show "prefix base (url req)" "timeout req = 10" by simp_all
next
  fix req
  assume m: "req \<in> set (sent (call_tool
          (BASE_URL dotenv (env(''EMI_API_BASE_URL'' \<mapsto> v))) rp c))"
  have b: "BASE_URL dotenv (env(''EMI_API_BASE_URL'' \<mapsto> v)) = v"
    by (simp add: BASE_URL_def getenv_def load_dotenv_def map_add_def)
  from call_tool_sent [OF m] obtain p where
    "req = \<lparr>url = BASE_URL dotenv (env(''EMI_API_BASE_URL'' \<mapsto> v)) @ p,
            body = body req, timeout = 10\<rparr>" by blast
  then have "url req = BASE_URL dotenv (env(''EMI_API_BASE_URL'' \<mapsto> v)) @ p"
    by (metis request.select_convs(1))
  with b show "prefix v (url req)" by simp
qed

text \<open>
  The theorem for \<^verbatim>\<open>calculate_emi\<close> with the default base URL and with another one.
\<close>

theorem post_request_shape_witness:
  "example_request \<in> set (sent (call_tool example_base (replying 200 ''OK'' JNull) example_call))
   \<and> prefix example_base (url example_request) \<and> timeout example_request = 10
   \<and> \<lparr>url = ''http://emi.example/api/calculate-emi'', body = body example_request,
        timeout = 10\<rparr>
       \<in> set (sent (call_tool
           (BASE_URL unset_env (unset_env(''EMI_API_BASE_URL'' \<mapsto> ''http://emi.example/api'')))
           (replying 200 ''OK'' JNull) example_call))
   \<and> prefix ''http://emi.example/api'' ''http://emi.example/api/calculate-emi''"
proof -
  have m: "example_request \<in> set (sent (call_tool example_base (replying 200 ''OK'' JNull) example_call))"
    by (simp add: example_request_def example_base_def example_call_def
        calculate_emi_def or_default_def post_sent)
  have n: "\<lparr>url = ''http://emi.example/api/calculate-emi'', body = body example_request,
        timeout = 10\<rparr>
       \<in> set (sent (call_tool
           (BASE_URL unset_env (unset_env(''EMI_API_BASE_URL'' \<mapsto> ''http://emi.example/api'')))
           (replying 200 ''OK'' JNull) example_call))"
    by (simp add: example_request_def example_call_def BASE_URL_def getenv_def
        load_dotenv_def map_add_def unset_env_def
        calculate_emi_def or_default_def post_sent)
  from post_request_shape [of example_base "replying 200 ''OK'' JNull" "''''" JNull
      example_call unset_env unset_env "''http://emi.example/api''"] m n
  show ?thesis by auto
qed

text \<open>
  Claim C8. The payloads a tool call sends depend on the call's arguments only: they
  are the same under any two base URLs and any two behaviours of the network.
\<close>

theorem payload_deterministic:
  "map body (sent (call_tool base1 rp1 c)) = map body (sent (call_tool base2 rp2 c))"
  by (cases c)
    (simp_all add: calculate_emi_def calculate_schedule_def compare_loans_def
      calculate_with_prepayment_def Let_def post_sent split: sum.splits)

text \<open>
  The theorem for one call under two base URLs and two backends.
\<close>

theorem payload_deterministic_witness:
  "map body (sent (call_tool example_base (replying 200 ''OK'' JNull) example_call))
     = map body (sent (call_tool ''http://emi.example/api''
         (raising (RequestException Timeout ''Read timed out.'')) example_call))"
  using payload_deterministic [of example_base "replying 200 ''OK'' JNull" example_call
      "''http://emi.example/api''" "raising (RequestException Timeout ''Read timed out.'')"]
  by simp

text \<open>
  Claim C9. From the same arguments \<^verbatim>\<open>calculate_schedule\<close> and \<^verbatim>\<open>calculate_emi\<close>
  build the same payload; one posts it to \<^verbatim>\<open>/amortization-schedule\<close>, the other to
  \<^verbatim>\<open>/calculate-emi\<close>, and they differ in nothing else.
\<close>

theorem schedule_payload_equals_emi_payload:
  "map body (sent (calculate_schedule base rp p r t m))
     = map body (sent (calculate_emi base rp p r t m))
   \<and> map url (sent (calculate_emi base rp p r t m)) = [base @ ''/calculate-emi'']
   \<and> map url (sent (calculate_schedule base rp p r t m)) = [base @ ''/amortization-schedule'']
   \<and> (\<exists>payload. calculate_emi base rp p r t m = post base rp ''/calculate-emi'' payload
         \<and> calculate_schedule base rp p r t m
             = post base rp ''/amortization-schedule'' payload)"
  by (simp add: calculate_emi_def calculate_schedule_def Let_def post_sent) blast

text \<open>
  The theorem at the arguments 100000, 9.5, 12 and no method.
\<close>

theorem schedule_payload_equals_emi_payload_witness:
  "map body (sent (calculate_schedule example_base (replying 200 ''OK'' JNull)
       100000 9.5 12 None))
     = map body (sent (calculate_emi example_base (replying 200 ''OK'' JNull)
         100000 9.5 12 None))
   \<and> map url (sent (calculate_emi example_base (replying 200 ''OK'' JNull)
         100000 9.5 12 None)) = [''http://localhost:8000/api/calculate-emi'']
   \<and> map url (sent (calculate_schedule example_base (replying 200 ''OK'' JNull)
         100000 9.5 12 None)) = [''http://localhost:8000/api/amortization-schedule'']"
  using schedule_payload_equals_emi_payload [of example_base "replying 200 ''OK'' JNull"
      100000 "9.5" 12 None]
  by (simp add: example_base_def)

text \<open>
  Claim C10. If every scenario has the keys \<^verbatim>\<open>principal\<close>, \<^verbatim>\<open>interestRate\<close> and
  \<^verbatim>\<open>tenure\<close>, then \<^verbatim>\<open>compare_loans\<close> posts a list of the same length and in the same
  order, whose \<open>i\<close>-th element has exactly the five keys \<^verbatim>\<open>name\<close>, \<^verbatim>\<open>principal\<close>,
  \<^verbatim>\<open>annual_rate\<close>, \<^verbatim>\<open>tenure_months\<close>, \<^verbatim>\<open>calculation_method\<close>, filled from the \<open>i\<close>-th
  scenario (an absent name is null, any other key is dropped). The empty list of
  scenarios is posted as \<^verbatim>\<open>{"scenarios": []}\<close>.
\<close>

theorem compare_loans_complete:
  assumes "\<forall>s\<in>set scenarios. \<forall>k\<in>{''principal'', ''interestRate'', ''tenure''}. map_of s k \<noteq> None"
  shows "(\<exists>fs. sent (compare_loans base rp scenarios m)
                  = [\<lparr>url = base @ ''/compare-loans'',
                      body = JObj [(''scenarios'', JList fs)], timeout = 10\<rparr>]
              \<and> length fs = length scenarios
              \<and> (\<forall>i<length scenarios.
                    fs ! i =
                      JObj [(''name'',
                               (case map_of (scenarios ! i) ''name'' of
                                  None \<Rightarrow> JNull | Some v \<Rightarrow> v)),
                            (''principal'', the (map_of (scenarios ! i) ''principal'')),
                            (''annual_rate'', the (map_of (scenarios ! i) ''interestRate'')),
                            (''tenure_months'', the (map_of (scenarios ! i) ''tenure'')),
                            (''calculation_method'',
                               (case map_of (scenarios ! i) ''calculation_method'' of
                                  None \<Rightarrow> JStr (case m of None \<Rightarrow> ''reducing'' | Some cm \<Rightarrow> cm)
                                | Some v \<Rightarrow> v))]))
       \<and> sent (compare_loans base rp [] m)
           = [\<lparr>url = base @ ''/compare-loans'',
               body = JObj [(''scenarios'', JList [])], timeout = 10\<rparr>]"
proof
  let ?dm = "or_default ''reducing'' m"
  from format_loop_complete [OF assms, of ?dm "[]"] obtain fs where
    l: "format_loop ?dm scenarios [] = Inr fs"
    and a: "list_all2 (\<lambda>s d. format_scenario ?dm s = Inr d) scenarios fs" by auto
  from l have c: "sent (compare_loans base rp scenarios m)
      = [\<lparr>url = base @ ''/compare-loans'',
          body = JObj [(''scenarios'', JList fs)], timeout = 10\<rparr>]"
    by (simp add: compare_loans_def post_sent)
  from a have n: "length fs = length scenarios"
    by (simp add: list_all2_lengthD)
  have e: "fs ! i =
      JObj [(''name'',
               (case map_of (scenarios ! i) ''name'' of None \<Rightarrow> JNull | Some v \<Rightarrow> v)),
            (''principal'', the (map_of (scenarios ! i) ''principal'')),
            (''annual_rate'', the (map_of (scenarios ! i) ''interestRate'')),
            (''tenure_months'', the (map_of (scenarios ! i) ''tenure'')),
            (''calculation_method'',
               (case map_of (scenarios ! i) ''calculation_method'' of
                  None \<Rightarrow> JStr (case m of None \<Rightarrow> ''reducing'' | Some cm \<Rightarrow> cm)
                | Some v \<Rightarrow> v))]"
    if "i < length scenarios" for i
  proof -
    from a that have "format_scenario ?dm (scenarios ! i) = Inr (fs ! i)"
      by (rule list_all2_nthD)
    from format_scenario_shape [OF this] show ?thesis
      by (simp add: or_default_def dict_get_def)
  qed
  from c n e show "\<exists>fs. sent (compare_loans base rp scenarios m)
                  = [\<lparr>url = base @ ''/compare-loans'',
                      body = JObj [(''scenarios'', JList fs)], timeout = 10\<rparr>]
              \<and> length fs = length scenarios
              \<and> (\<forall>i<length scenarios.
                    fs ! i =
                      JObj [(''name'',
                               (case map_of (scenarios ! i) ''name'' of
                                  None \<Rightarrow> JNull | Some v \<Rightarrow> v)),
                            (''principal'', the (map_of (scenarios ! i) ''principal'')),
                            (''annual_rate'', the (map_of (scenarios ! i) ''interestRate'')),
                            (''tenure_months'', the (map_of (scenarios ! i) ''tenure'')),
                            (''calculation_method'',
                               (case map_of (scenarios ! i) ''calculation_method'' of
                                  None \<Rightarrow> JStr (case m of None \<Rightarrow> ''reducing'' | Some cm \<Rightarrow> cm)
                                | Some v \<Rightarrow> v))])"
    by (intro exI [of _ fs]) simp
next
  show "sent (compare_loans base rp [] m)
           = [\<lparr>url = base @ ''/compare-loans'',
               body = JObj [(''scenarios'', JList [])], timeout = 10\<rparr>]"
    by (simp add: compare_loans_def post_sent)
qed

text \<open>
  The theorem for two scenarios, the second with a name, a method of its own and a
  key the backend contract does not know.
\<close>

theorem compare_loans_complete_witness:
  "map (\<lambda>s. map (map_of s) [''principal'', ''interestRate'', ''tenure''])
       [example_scenario, named_scenario]
     = [[Some (JInt 100000), Some (JFloat 9.5), Some (JInt 12)],
        [Some (JInt 250000), Some (JFloat 8), Some (JInt 24)]]
   \<and> sent (compare_loans example_base (replying 200 ''OK'' JNull)
        [example_scenario, named_scenario] None)
      = [\<lparr>url = ''http://localhost:8000/api/compare-loans'',
          body = JObj [(''scenarios'',
                   JList [JObj [(''name'', JNull), (''principal'', JInt 100000),
                                (''annual_rate'', JFloat 9.5), (''tenure_months'', JInt 12),
                                (''calculation_method'', JStr ''reducing'')],
                          JObj [(''name'', JStr ''B''), (''principal'', JInt 250000),
                                (''annual_rate'', JFloat 8), (''tenure_months'', JInt 24),
                                (''calculation_method'', JStr ''flat'')]])],
          timeout = 10\<rparr>]"
proof -
  have h: "\<forall>s\<in>set [example_scenario, named_scenario].
      \<forall>k\<in>{''principal'', ''interestRate'', ''tenure''}. map_of s k \<noteq> None"
    by (simp add: example_scenario_def named_scenario_def)
  from compare_loans_complete [OF h, of example_base "replying 200 ''OK'' JNull" None] h
  show ?thesis
    by (simp add: compare_loans_def or_default_def format_scenario_def getitem_def
        dict_get_def post_sent example_scenario_def named_scenario_def example_base_def)
qed

end
